theory Spec2Isabelle
  imports Complex_Main "HOL-Library.AList" "HOL-Library.Sublist"
begin

section \<open>JavaScript values, JSON text and the browser's storage\<close>

text \<open>
  The persistence class of \<^verbatim>\<open>src/lib/project-persistence.ts\<close> stores what
  \<^verbatim>\<open>JSON.stringify\<close> gives and reads it back with \<^verbatim>\<open>JSON.parse\<close>; TypeScript's types are
  erased at run time, so what is stored and loaded is an arbitrary JSON value. An object is
  the list of its own properties in insertion order; reading a property returns the first
  entry of that name.
\<close>

datatype json =
    JNull
  | JBool bool
  | JNumber rat
  | JString string
  | JArray "json list"
  | JObject "(string \<times> json) list"

text \<open>JavaScript's \<^verbatim>\<open>!v\<close> and \<^verbatim>\<open>a || b\<close> test truthiness.\<close>

fun truthy :: "json \<Rightarrow> bool" where
  "truthy JNull = False"
| "truthy (JBool b) = b"
| "truthy (JNumber n) = (n \<noteq> 0)"
| "truthy (JString s) = (s \<noteq> [])"
| "truthy (JArray xs) = True"
| "truthy (JObject ps) = True"

fun isArray :: "json \<Rightarrow> bool" where
  "isArray (JArray xs) = True"
| "isArray v = False"

text \<open>
  \<^verbatim>\<open>v.k\<close> for a value \<open>v\<close> that is not \<^verbatim>\<open>null\<close>, and a name \<open>k\<close> that is no built-in property
  (the code reads \<open>files\<close>, \<open>packages\<close>, \<open>sandboxId\<close>, \<open>path\<close>, \<open>type\<close>): the property of an
  object, and \<^verbatim>\<open>undefined\<close> (\<open>None\<close>) for a missing one and for every other value.
\<close>

definition get_prop :: "json \<Rightarrow> string \<Rightarrow> json option" where
  "get_prop v k = (case v of JObject ps \<Rightarrow> map_of ps k | _ \<Rightarrow> None)"

definition truthy_opt :: "json option \<Rightarrow> bool" where
  "truthy_opt v = (case v of None \<Rightarrow> False | Some d \<Rightarrow> truthy d)"

text \<open>
  The errors thrown by the platform and by the routes: \<^verbatim>\<open>JSON.parse\<close> on malformed text, a
  property read of \<^verbatim>\<open>null\<close> or a spread of a value that is not iterable, a refused
  \<^verbatim>\<open>localStorage.setItem\<close>, an unreadable upload, \<^verbatim>\<open>fs.readFile\<close> of a missing file, a
  rejected \<^verbatim>\<open>fetch\<close>, a response body that cannot be read, and the two errors the
  restore-project route throws itself.
\<close>

datatype error =
    SyntaxError
  | TypeError
  | QuotaExceededError
  | ReadError
  | ENOENT
  | FetchFailed
  | BodyUnreadable
  | StreamReadingFailed
  | CouldNotParse

text \<open>
  A stored text is kept as what \<^verbatim>\<open>JSON.parse\<close> makes of it: \<open>Doc d\<close> is a text that parses
  to the value \<open>d\<close> (the text \<^verbatim>\<open>JSON.stringify\<close> writes for \<open>d\<close> is one), \<open>Garbage s\<close> is a
  text \<open>s\<close> on which \<^verbatim>\<open>JSON.parse\<close> throws a SyntaxError (for an \<open>s\<close> that would parse,
  \<open>Garbage s\<close> stands for no text at all); \<open>Garbage []\<close> is the empty string, the only falsy
  string.
\<close>

datatype jtext = Doc json | Garbage string

fun JSON_parse :: "jtext \<Rightarrow> error + json" where
  "JSON_parse (Doc d) = Inr d"
| "JSON_parse (Garbage s) = Inl SyntaxError"

text \<open>
  \<^verbatim>\<open>JSON.stringify\<close> throws on cyclic structures and BigInt only; a value of type \<^typ>\<open>json\<close>
  has neither, so the error branch of the result is never taken.
\<close>

definition JSON_stringify :: "json \<Rightarrow> error + jtext" where
  "JSON_stringify d = Inr (Doc d)"

definition empty_text :: "jtext \<Rightarrow> bool" where
  "empty_text t = (t = Garbage [])"

type_synonym storage = "string \<Rightarrow> jtext option"

text \<open>
  \<^verbatim>\<open>localStorage.setItem\<close> throws a QuotaExceededError when the browser refuses the write.
  Which writes a browser refuses is its own policy: a parameter \<open>Q\<close>, told the present
  content, the key and the new text.
\<close>

type_synonym quota = "storage \<Rightarrow> string \<Rightarrow> jtext \<Rightarrow> bool"

definition getItem :: "storage \<Rightarrow> string \<Rightarrow> jtext option" where
  "getItem st k = st k"

definition setItem :: "quota \<Rightarrow> storage \<Rightarrow> string \<Rightarrow> jtext \<Rightarrow> error + storage" where
  "setItem Q st k v = (if Q st k v then Inr (st(k \<mapsto> v)) else Inl QuotaExceededError)"

definition removeItem :: "storage \<Rightarrow> string \<Rightarrow> storage" where
  "removeItem st k = st(k := None)"

text \<open>
  \<^verbatim>\<open>typeof window === 'undefined'\<close> tells the server from the browser; only the browser has
  a \<^verbatim>\<open>localStorage\<close>.
\<close>

datatype env = Server | Browser storage

section \<open>ProjectPersistence\<close>

definition STORAGE_KEY :: string where
  "STORAGE_KEY = ''lovable_project_state''"

definition BACKUP_KEY :: string where
  "BACKUP_KEY = ''lovable_project_backup''"

text \<open>
  The state object handed to \<^verbatim>\<open>saveProject\<close> is given by its properties. \<open>now\<close> is
  \<^verbatim>\<open>new Date().toISOString()\<close>. The object literal \<^verbatim>\<open>{...state, lastSaved: now}\<close> keeps the
  properties of \<open>state\<close> and sets \<open>lastSaved\<close>, in place when it is there and at the end
  otherwise.
\<close>

type_synonym ProjectState = "(string \<times> json) list"

definition stamped :: "string \<Rightarrow> ProjectState \<Rightarrow> json" where
  "stamped now state = JObject (AList.update ''lastSaved'' (JString now) state)"

text \<open>
  \<^verbatim>\<open>saveProject\<close> returns nothing; the \<^verbatim>\<open>catch\<close> block logs the error and leaves the storage
  as the statements before the throw made it.
\<close>

fun saveProject :: "quota \<Rightarrow> string \<Rightarrow> ProjectState \<Rightarrow> env \<Rightarrow> env" where
  "saveProject Q now state Server = Server"
| "saveProject Q now state (Browser st) =
     (case JSON_stringify (stamped now state) of
        Inl e \<Rightarrow> Browser st
      | Inr serialized \<Rightarrow>
          (case setItem Q st STORAGE_KEY serialized of
             Inl e \<Rightarrow> Browser st
           | Inr st1 \<Rightarrow>
               (case setItem Q st1 BACKUP_KEY serialized of
                  Inl e \<Rightarrow> Browser st1
                | Inr st2 \<Rightarrow> Browser st2)))"

text \<open>
  \<^verbatim>\<open>loadProject\<close> returns what \<^verbatim>\<open>JSON.parse\<close> returns, or \<^verbatim>\<open>null\<close> (\<open>JNull\<close>). The backup is
  read only where \<^verbatim>\<open>!stored\<close> holds: the primary slot is absent or holds the empty string.
  Any throw is caught and answered with \<^verbatim>\<open>null\<close>.
\<close>

definition parse_or_null :: "jtext \<Rightarrow> json" where
  "parse_or_null t = (case JSON_parse t of Inl e \<Rightarrow> JNull | Inr d \<Rightarrow> d)"

definition load_backup :: "storage \<Rightarrow> json" where
  "load_backup st =
     (case getItem st BACKUP_KEY of
        None \<Rightarrow> JNull
      | Some backup \<Rightarrow> if empty_text backup then JNull else parse_or_null backup)"

fun loadProject :: "env \<Rightarrow> json" where
  "loadProject Server = JNull"
| "loadProject (Browser st) =
     (case getItem st STORAGE_KEY of
        None \<Rightarrow> load_backup st
      | Some stored \<Rightarrow> if empty_text stored then load_backup st else parse_or_null stored)"

subsection \<open>saveFiles\<close>

text \<open>\<^verbatim>\<open>file.path\<close>: reading a property of \<^verbatim>\<open>null\<close> throws a TypeError.\<close>

definition file_path :: "json \<Rightarrow> error + json option" where
  "file_path file = (if file = JNull then Inl TypeError else Inr (get_prop file ''path''))"












subsection \<open>importProject\<close>

text \<open>
  The argument is what \<^verbatim>\<open>await file.text()\<close> gives: the text, or the error of a file that
  cannot be read. Every throw inside the \<^verbatim>\<open>try\<close> is answered with \<^verbatim>\<open>false\<close>; reading
  \<^verbatim>\<open>state.files\<close> of \<^verbatim>\<open>null\<close> is one, and only an object can have a property \<open>files\<close>.
\<close>

fun importProject :: "quota \<Rightarrow> string \<Rightarrow> error + jtext \<Rightarrow> env \<Rightarrow> bool \<times> env" where
  "importProject Q now (Inl e) env = (False, env)"
| "importProject Q now (Inr t) env =
     (case JSON_parse t of
        Inl e \<Rightarrow> (False, env)
      | Inr state \<Rightarrow>
          (case state of
             JObject ps \<Rightarrow>
               (case map_of ps ''files'' of
                  None \<Rightarrow> (False, env)
                | Some fs \<Rightarrow>
                    if \<not> truthy fs \<or> \<not> isArray fs then (False, env)
                    else (True, saveProject Q now ps env))
           | _ \<Rightarrow> (False, env)))"

subsection \<open>Reading a snapshot\<close>

text \<open>
  What the statements below read off a loaded snapshot: the elements of its \<open>files\<close> and
  \<open>packages\<close> arrays, the path of a file when it is a string, and the file an array holds for
  a path (the last one, as a \<^verbatim>\<open>Map\<close> built from the array would).
\<close>

definition files_of :: "json \<Rightarrow> json list" where
  "files_of v = (case get_prop v ''files'' of Some (JArray fs) \<Rightarrow> fs | _ \<Rightarrow> [])"


definition path_of :: "json \<Rightarrow> string option" where
  "path_of f = (case file_path f of Inr (Some (JString p)) \<Rightarrow> Some p | _ \<Rightarrow> None)"

fun file_at :: "json list \<Rightarrow> string \<Rightarrow> json option" where
  "file_at [] p = None"
| "file_at (f # fs) p =
     (case file_at fs p of
        Some g \<Rightarrow> Some g
      | None \<Rightarrow> if path_of f = Some p then Some f else None)"

definition has_files_array :: "json \<Rightarrow> bool" where
  "has_files_array d = (case get_prop d ''files'' of Some (JArray fs) \<Rightarrow> True | _ \<Rightarrow> False)"


subsection \<open>Example stores\<close>

definition accepts_all :: quota where
  "accepts_all st k v = True"

definition refuses_all :: quota where
  "refuses_all st k v = False"

definition refuses_backup :: quota where
  "refuses_backup st k v = (k = STORAGE_KEY)"

definition mk_file :: "string \<Rightarrow> string \<Rightarrow> json" where
  "mk_file p c = JObject [(''path'', JString p), (''content'', JString c), (''type'', JString ''text'')]"

definition S0 :: ProjectState where
  "S0 = [(''files'', JArray [mk_file ''a'' ''1'', mk_file ''b'' ''2'']),
         (''packages'', JArray [JString ''p'']),
         (''lastSaved'', JString ''2025-01-01T00:00:00.000Z''),
         (''projectName'', JString ''PLC Karting''),
         (''sandboxId'', JString ''sb1'')]"

definition S1 :: ProjectState where
  "S1 = [(''files'', JArray [mk_file ''c'' ''4'']),
         (''packages'', JArray [JString ''q'']),
         (''projectName'', JString ''PLC Karting'')]"

definition store0 :: storage where
  "store0 = Map.empty(STORAGE_KEY \<mapsto> Doc (JObject S0), BACKUP_KEY \<mapsto> Doc (JObject S0))"





section \<open>ErrorMonitor\<close>

text \<open>
  The patterns of \<^verbatim>\<open>src/lib/error-monitor.ts\<close> are built from literal text, \<^verbatim>\<open>.\<close>, \<^verbatim>\<open>.*\<close>,
  sequence and \<^verbatim>\<open>|\<close>; none has a flag, so \<^verbatim>\<open>test\<close> keeps no state between calls. \<^verbatim>\<open>.\<close>
  matches any character but a line terminator (of the 8-bit characters of \<^typ>\<open>string\<close>:
  line feed and carriage return). \<open>matches r s\<close> lists what is left of \<open>s\<close> after each way
  \<open>r\<close> matches a prefix of it, in the order a backtracking matcher tries them, \<^verbatim>\<open>.*\<close> longest
  first; \<open>test\<close> looks for a match from every position, leftmost first.
\<close>

datatype regex =
    Lit string
  | Dot
  | DotStar
  | Seq regex regex
  | Alt regex regex

definition line_terminator :: "char \<Rightarrow> bool" where
  "line_terminator c = (c = CHR 0x0A \<or> c = CHR 0x0D)"

fun dotstar :: "string \<Rightarrow> string list" where
  "dotstar [] = [[]]"
| "dotstar (c # cs) = (if line_terminator c then [c # cs] else dotstar cs @ [c # cs])"

fun matches :: "regex \<Rightarrow> string \<Rightarrow> string list" where
  "matches (Lit l) s = (if prefix l s then [drop (length l) s] else [])"
| "matches Dot s = (case s of [] \<Rightarrow> [] | c # cs \<Rightarrow> if line_terminator c then [] else [cs])"
| "matches DotStar s = dotstar s"
| "matches (Seq a b) s = concat (map (matches b) (matches a s))"
| "matches (Alt a b) s = matches a s @ matches b s"

fun test :: "regex \<Rightarrow> string \<Rightarrow> bool" where
  "test r [] = (matches r [] \<noteq> [])"
| "test r (c # cs) = (matches r (c # cs) \<noteq> [] \<or> test r cs)"

text \<open>
  An \<^verbatim>\<open>ErrorPattern\<close> without its \<^verbatim>\<open>autoFix\<close> producer, which \<^verbatim>\<open>detectError\<close> and
  \<^verbatim>\<open>getErrorType\<close> never call.
\<close>

record ErrorPattern =
  pattern :: regex
  type :: string
  description :: string

definition errorPatterns :: "ErrorPattern list" where
  "errorPatterns =
     [\<lparr>pattern = Seq (Lit ''[postcss]'')
                  (Seq DotStar (Seq (Lit ''Unknown word'') (Seq DotStar (Lit ''```css'')))),
       type = ''css'', description = ''CSS file contains markdown syntax''\<rparr>,
      \<lparr>pattern = Seq (Lit ''hydrated but some attributes'') (Seq DotStar (Lit ''didn't match'')),
       type = ''hydration'', description = ''React hydration mismatch''\<rparr>,
      \<lparr>pattern = Alt (Lit ''WritableStream is closed'')
                  (Seq (Lit ''Invalid state'') (Seq DotStar (Lit ''WritableStream''))),
       type = ''runtime'', description = ''Stream handling error''\<rparr>,
      \<lparr>pattern = Alt (Seq (Lit ''Firecrawl API error'') (Seq DotStar (Lit ''Invalid url'')))
                  (Alt (Lit ''Invalid URL'') (Lit ''Invalid URL format'')),
       type = ''runtime'', description = ''Invalid URL format for Firecrawl API''\<rparr>,
      \<lparr>pattern = Alt (Lit ''Cannot find module'') (Lit ''Module not found''),
       type = ''build'', description = ''Missing module dependency''\<rparr>,
      \<lparr>pattern = Alt (Lit ''Unexpected token'') (Lit ''SyntaxError''),
       type = ''syntax'', description = ''JavaScript/TypeScript syntax error''\<rparr>]"

text \<open>The \<^verbatim>\<open>for\<close> loop of \<^verbatim>\<open>detectError\<close>, over the patterns still to try.\<close>

fun first_match :: "ErrorPattern list \<Rightarrow> string \<Rightarrow> ErrorPattern option" where
  "first_match [] errorMessage = None"
| "first_match (p # ps) errorMessage =
     (if test (pattern p) errorMessage then Some p else first_match ps errorMessage)"

definition detectError :: "string \<Rightarrow> ErrorPattern option" where
  "detectError errorMessage = first_match errorPatterns errorMessage"

definition getErrorType :: "string \<Rightarrow> string" where
  "getErrorType errorMessage =
     (case detectError errorMessage of Some p \<Rightarrow> type p | None \<Rightarrow> ''unknown'')"

section \<open>The auto-fix route\<close>

text \<open>
  \<^verbatim>\<open>content.replace(r, rep)\<close> with a pattern without the \<^verbatim>\<open>g\<close> flag replaces the leftmost
  match; with \<^verbatim>\<open>g\<close> and a literal pattern it replaces every match, left to right, and does
  not look into what it has inserted. None of the replacement texts of the route has a
  \<^verbatim>\<open>$\<close>.
\<close>

fun replace_first :: "regex \<Rightarrow> string \<Rightarrow> string \<Rightarrow> string" where
  "replace_first r rep [] = (case matches r [] of [] \<Rightarrow> [] | t # ts \<Rightarrow> rep @ t)"
| "replace_first r rep (c # cs) =
     (case matches r (c # cs) of [] \<Rightarrow> c # replace_first r rep cs | t # ts \<Rightarrow> rep @ t)"

fun replaceAll :: "string \<Rightarrow> string \<Rightarrow> string \<Rightarrow> string" where
  "replaceAll [] rep s = rep @ concat (map (\<lambda>c. c # rep) s)"
| "replaceAll (p # ps) rep [] = []"
| "replaceAll (p # ps) rep (c # cs) =
     (if prefix (p # ps) (c # cs) then rep @ replaceAll (p # ps) rep (drop (length ps) cs)
      else c # replaceAll (p # ps) rep cs)"

text \<open>
  \<^verbatim>\<open>/<body className={inter.className}>/\<close>: the braces stand for themselves and the dot for
  any character.
\<close>

definition body_tag :: regex where
  "body_tag = Seq (Lit ''<body className={inter'') (Seq Dot (Lit ''className}>''))"

text \<open>
  \<^verbatim>\<open>content.replace(/^```css\n/, '').replace(/\n```$/, '')\<close>: without the \<^verbatim>\<open>m\<close> flag the
  anchors are the two ends of the text.
\<close>

definition unfence_css :: "string \<Rightarrow> string" where
  "unfence_css content =
     (let c1 = (if prefix ''```css\<newline>'' content then drop 7 content else content)
      in if suffix ''\<newline>```'' c1 then take (length c1 - 4) c1 else c1)"

definition guarded_close :: string where
  "guarded_close = ''try {\<newline>          if (writer && !stream.locked) {\<newline>            await writer.close();\<newline>          }\<newline>        } catch (closeError) {\<newline>          console.warn('Writer already closed or stream locked:', closeError);\<newline>        }''"

definition urlValidation :: string where
  "urlValidation = ''\<newline>function validateUrl(url: string): string {\<newline>  try {\<newline>    if (!url.startsWith('http://') && !url.startsWith('https://')) {\<newline>      url = 'https://' + url;\<newline>    }\<newline>    const validUrl = new URL(url);\<newline>    return validUrl.toString();\<newline>  } catch {\<newline>    throw new Error('Invalid URL format');\<newline>  }\<newline>}\<newline>''"

text \<open>
  The route is given the strings \<open>file\<close> and \<open>fix\<close> of the request, and the files below
  \<^verbatim>\<open>process.cwd()\<close> by the path the request names. The reply is
  \<^verbatim>\<open>{success: true, message}\<close>, \<^verbatim>\<open>{success: false, message: 'No auto-fix available'}\<close>, or
  status 500 after a throw (\<^verbatim>\<open>readFile\<close> of a missing file).
\<close>

type_synonym files = "string \<Rightarrow> string option"

datatype autofix_reply = Success string | NoAutoFix | Failure error

text \<open>
  The three guarded branches share one shape: read the file, and when it lacks the marker,
  write the patched content; reply with success either way.
\<close>

definition patch_file ::
    "files \<Rightarrow> string \<Rightarrow> string \<Rightarrow> string \<Rightarrow> (string \<Rightarrow> string) \<Rightarrow> autofix_reply \<times> files" where
  "patch_file fs file marker message patch =
     (case fs file of
        None \<Rightarrow> (Failure ENOENT, fs)
      | Some content \<Rightarrow>
          if \<not> sublist marker content then (Success message, fs(file \<mapsto> patch content))
          else (Success message, fs))"

definition auto_fix_POST :: "files \<Rightarrow> string \<Rightarrow> string \<Rightarrow> autofix_reply \<times> files" where
  "auto_fix_POST fs file fix =
     (if file = ''app/layout.tsx'' \<and> sublist ''suppressHydrationWarning'' fix then
        patch_file fs file ''suppressHydrationWarning'' ''Hydration warning suppressed''
          (replace_first body_tag ''<body className={inter.className} suppressHydrationWarning>'')
      else if suffix ''.css'' file \<and> sublist ''Remove markdown'' fix then
        (case fs file of
           None \<Rightarrow> (Failure ENOENT, fs)
         | Some content \<Rightarrow>
             (Success ''CSS markdown syntax removed'', fs(file \<mapsto> unfence_css content)))
      else if sublist ''generate-ai-code-stream'' file \<and> sublist ''stream state checks'' fix then
        patch_file fs file ''!stream.locked'' ''Stream error handling added''
          (replaceAll ''await writer.close();'' guarded_close)
      else if sublist ''scrape-url-enhanced'' file \<and> sublist ''Validate and format URL'' fix then
        patch_file fs file ''validateUrl'' ''URL validation added''
          (\<lambda>content. replaceAll ''const targetUrl = url;'' ''const targetUrl = validateUrl(url);''
                       (urlValidation @ ''\<newline>'' @ content))
      else (NoAutoFix, fs))"

definition css_plan :: "string \<Rightarrow> string \<Rightarrow> bool" where
  "css_plan file fix = (suffix ''.css'' file \<and> sublist ''Remove markdown'' fix)"

definition fenced_twice :: files where
  "fenced_twice = Map.empty(''app/globals.css'' \<mapsto> ''```css\<newline>```css\<newline>body{}\<newline>```\<newline>```'')"

definition layout0 :: files where
  "layout0 = Map.empty(''app/layout.tsx'' \<mapsto> ''<html><body className={inter.className}>x</body></html>'')"

section \<open>SandboxWarning\<close>

text \<open>
  The interval callback of the component, for the start time the effect took from session
  storage (or \<^verbatim>\<open>Date.now()\<close> at the first mount) and the \<^verbatim>\<open>Date.now()\<close> of the tick, both in
  milliseconds. It sets the two state variables \<^verbatim>\<open>timeRemaining\<close> (\<^verbatim>\<open>null\<close> before the first
  tick) and \<^verbatim>\<open>showWarning\<close>.
\<close>

definition SANDBOX_LIFETIME :: int where
  "SANDBOX_LIFETIME = 15 * 60 * 1000"

definition WARNING_THRESHOLD :: int where
  "WARNING_THRESHOLD = 2 * 60 * 1000"

record display =
  timeRemaining :: "int option"
  showWarning :: bool

definition tick :: "int \<Rightarrow> int \<Rightarrow> display" where
  "tick startTime now =
     (let elapsed = now - startTime;
          remaining = SANDBOX_LIFETIME - elapsed
      in if remaining \<le> 0 then \<lparr>timeRemaining = Some 0, showWarning = True\<rparr>
         else if remaining \<le> WARNING_THRESHOLD then
           \<lparr>timeRemaining = Some remaining, showWarning = True\<rparr>
         else \<lparr>timeRemaining = Some remaining, showWarning = False\<rparr>)"

text \<open>
  What the component renders: nothing while \<^verbatim>\<open>!showWarning || timeRemaining === null\<close>,
  \<^verbatim>\<open>Sandbox Expired\<close> when \<^verbatim>\<open>timeRemaining <= 0\<close>, \<^verbatim>\<open>Sandbox Expiring Soon\<close> otherwise.
\<close>

datatype lifecycle = Active | Warning | Expired

definition lifecycle_of :: "display \<Rightarrow> lifecycle" where
  "lifecycle_of d =
     (case timeRemaining d of
        None \<Rightarrow> Active
      | Some r \<Rightarrow> if \<not> showWarning d then Active else if r \<le> 0 then Expired else Warning)"

fun rank :: "lifecycle \<Rightarrow> nat" where
  "rank Active = 0"
| "rank Warning = 1"
| "rank Expired = 2"

section \<open>The restore-project route\<close>

text \<open>
  A \<^verbatim>\<open>Response\<close> by what the route reads of it: \<^verbatim>\<open>ok\<close>, the \<^verbatim>\<open>Content-Type\<close> header, the
  chunks \<^verbatim>\<open>body.getReader().read()\<close> yields until \<^verbatim>\<open>done\<close> (\<open>None\<close>: no body; \<open>Inl\<close>: the read
  throws), what \<^verbatim>\<open>text()\<close> gives, and the lines of that text. A line is kept as the text
  after its \<^verbatim>\<open>data: \<close> prefix, or as a line without the prefix.
\<close>

datatype line = Data jtext | Other

record response =
  ok :: bool
  contentType :: "string option"
  stream :: "(error + line list) list option"
  text_of :: "error + jtext"
  text_lines :: "line list"

text \<open>
  \<^verbatim>\<open>JSON.parse(line.substring(6)).type === 'complete'\<close>, inside a \<^verbatim>\<open>try\<close> that skips the line
  on any throw.
\<close>

fun complete_event :: "line \<Rightarrow> bool" where
  "complete_event (Data t) =
     (case JSON_parse t of
        Inr d \<Rightarrow> get_prop d ''type'' = Some (JString ''complete'')
      | Inl e \<Rightarrow> False)"
| "complete_event Other = False"

text \<open>The loop \<^verbatim>\<open>while (!completed)\<close> over the chunks; a read that throws is thrown on.\<close>

fun read_stream :: "(error + line list) list \<Rightarrow> error + unit" where
  "read_stream [] = Inr ()"
| "read_stream (Inl e # rest) = Inl StreamReadingFailed"
| "read_stream (Inr lines # rest) =
     (if list_ex complete_event lines then Inr () else read_stream rest)"

definition apply_body :: "response \<Rightarrow> error + unit" where
  "apply_body r =
     (if (case contentType r of None \<Rightarrow> False | Some ct \<Rightarrow> sublist ''text/event-stream'' ct) then
        (case stream r of None \<Rightarrow> Inr () | Some chunks \<Rightarrow> read_stream chunks)
      else
        (case text_of r of
           Inl e \<Rightarrow> Inl e
         | Inr t \<Rightarrow>
             (case JSON_parse t of
                Inr result \<Rightarrow> Inr ()
              | Inl e \<Rightarrow>
                  if list_ex complete_event (text_lines r) then Inr () else Inl CouldNotParse)))"

text \<open>\<^verbatim>\<open>packages?.length || 0\<close>.\<close>

fun length_or_0 :: "json option \<Rightarrow> json" where
  "length_or_0 (Some (JArray xs)) = JNumber (of_nat (length xs))"
| "length_or_0 (Some (JString s)) = JNumber (of_nat (length s))"
| "length_or_0 (Some (JObject ps)) =
     (case map_of ps ''length'' of
        None \<Rightarrow> JNumber 0
      | Some v \<Rightarrow> if truthy v then v else JNumber 0)"
| "length_or_0 v = JNumber 0"

text \<open>
  The replies of the route: 200 with \<^verbatim>\<open>{success: true, filesRestored, packagesRestored}\<close>,
  400 with a message, 500 \<^verbatim>\<open>Failed to apply files to sandbox\<close>, and the 500 of the outer
  \<^verbatim>\<open>catch\<close>.
\<close>

datatype restore_reply =
    Restored nat json
  | Rejected string
  | ApplyFailed
  | Crashed error

text \<open>
  A template literal converts every \<^verbatim>\<open>${v}\<close> with ToString. On the values of a parsed
  request that throws a TypeError exactly for an object with an own property \<open>toString\<close>
  (a JSON value is never callable, and the inherited \<^verbatim>\<open>valueOf\<close> returns the object itself)
  and for an array with such an element, which \<^verbatim>\<open>join\<close> converts in turn; \<^verbatim>\<open>undefined\<close>,
  \<^verbatim>\<open>null\<close>, booleans, numbers, strings and every other object have a text.
\<close>

fun ToString_throws :: "json \<Rightarrow> bool" where
  "ToString_throws (JObject ps) = (map_of ps ''toString'' \<noteq> None)"
| "ToString_throws (JArray xs) = (\<exists>x \<in> set xs. ToString_throws x)"
| "ToString_throws v = False"

definition template_throws :: "json option \<Rightarrow> bool" where
  "template_throws v = (case v of None \<Rightarrow> False | Some d \<Rightarrow> ToString_throws d)"

text \<open>
  One step of \<^verbatim>\<open>files.map(file => `<file path="${file.path}">\n${file.content}\n</file>`)\<close>:
  reading a property of \<^verbatim>\<open>null\<close> throws, and so does a path or a content without a text.
\<close>

definition file_text_throws :: "json \<Rightarrow> bool" where
  "file_text_throws file =
     (file = JNull \<or> template_throws (get_prop file ''path'')
      \<or> template_throws (get_prop file ''content''))"

text \<open>
  The arguments are what the three awaits give: \<^verbatim>\<open>request.json()\<close> and the two \<^verbatim>\<open>fetch\<close>
  calls, to \<^verbatim>\<open>/api/apply-ai-code-stream\<close> and to \<^verbatim>\<open>/api/restart-vite\<close>; \<open>Inl\<close> is a rejected
  promise. An array is truthy, so \<^verbatim>\<open>!files || !Array.isArray(files)\<close> lets exactly the arrays
  pass. The log line \<^verbatim>\<open>`Restoring ${files.length} files to sandbox ${sandboxId}`\<close> converts
  the sandbox id, and building \<^verbatim>\<open>fileContents\<close> converts the path and the content of every
  file; each throw is a TypeError, and the text built is only sent on. A restart response
  that is not \<^verbatim>\<open>ok\<close> is logged with \<^verbatim>\<open>console.warn\<close> and nothing else.
\<close>

definition restore_project_POST ::
    "error + json \<Rightarrow> error + response \<Rightarrow> error + response \<Rightarrow> restore_reply" where
  "restore_project_POST request applyResult restartResult =
     (case request of
        Inl e \<Rightarrow> Crashed e
      | Inr requestData \<Rightarrow>
          if requestData = JNull then Crashed TypeError
          else
            (let files = get_prop requestData ''files'';
                 packages = get_prop requestData ''packages'';
                 sandboxId = get_prop requestData ''sandboxId''
             in case files of
                  Some (JArray fs) \<Rightarrow>
                    if \<not> truthy_opt sandboxId then Rejected ''Sandbox ID is required''
                    else if template_throws sandboxId then Crashed TypeError
                    else if list_ex file_text_throws fs then Crashed TypeError
                    else
                      (case applyResult of
                         Inl e \<Rightarrow> Crashed e
                       | Inr applyResponse \<Rightarrow>
                           if \<not> ok applyResponse then
                             (case text_of applyResponse of
                                Inl e \<Rightarrow> Crashed e
                              | Inr t \<Rightarrow> ApplyFailed)
                           else
                             (case apply_body applyResponse of
                                Inl e \<Rightarrow> Crashed e
                              | Inr u \<Rightarrow>
                                  (case restartResult of
                                     Inl e \<Rightarrow> Crashed e
                                   | Inr restartResponse \<Rightarrow>
                                       Restored (length fs) (length_or_0 packages))))
                | _ \<Rightarrow> Rejected ''Files array is required''))"

definition restore_request :: json where
  "restore_request =
     JObject [(''files'', JArray [mk_file ''a'' ''1'', mk_file ''b'' ''2'']),
              (''packages'', JArray [JString ''p'']),
              (''sandboxId'', JString ''sb2'')]"

definition applied :: response where
  "applied =
     \<lparr>ok = True, contentType = Some ''text/event-stream'',
      stream = Some [Inr [Data (Doc (JObject [(''type'', JString ''complete'')]))]],
      text_of = Inr (Garbage ''data: complete''),
      text_lines = [Data (Doc (JObject [(''type'', JString ''complete'')]))]\<rparr>"

definition restart_refused :: response where
  "restart_refused =
     \<lparr>ok = False, contentType = None, stream = None,
      text_of = Inr (Garbage ''no sandbox''), text_lines = [Other]\<rparr>"

section \<open>Properties of ProjectPersistence\<close>

lemma keys_differ: "STORAGE_KEY \<noteq> BACKUP_KEY" "BACKUP_KEY \<noteq> STORAGE_KEY"
  by (simp_all add: STORAGE_KEY_def BACKUP_KEY_def)

lemma loadProject_primary_doc:
  "getItem st STORAGE_KEY = Some (Doc d) \<Longrightarrow> loadProject (Browser st) = d"
  by (simp add: empty_text_def parse_or_null_def)

lemma loadProject_backup_doc:
  assumes "getItem st STORAGE_KEY = None \<or> getItem st STORAGE_KEY = Some (Garbage [])"
    and "getItem st BACKUP_KEY = Some (Doc d)"
  shows "loadProject (Browser st) = d"
  using assms by (auto simp: empty_text_def parse_or_null_def load_backup_def)

lemma saveProject_refused:
  "\<not> Q st STORAGE_KEY (Doc (stamped now S)) \<Longrightarrow> saveProject Q now S (Browser st) = Browser st"
  by (simp add: JSON_stringify_def setItem_def)

lemma saveProject_primary_only:
  assumes "Q st STORAGE_KEY (Doc (stamped now S))"
    and "\<not> Q (st(STORAGE_KEY \<mapsto> Doc (stamped now S))) BACKUP_KEY (Doc (stamped now S))"
  shows "saveProject Q now S (Browser st) = Browser (st(STORAGE_KEY \<mapsto> Doc (stamped now S)))"
  using assms by (simp add: JSON_stringify_def setItem_def)

lemma saveProject_both:
  assumes "Q st STORAGE_KEY (Doc (stamped now S))"
    and "Q (st(STORAGE_KEY \<mapsto> Doc (stamped now S))) BACKUP_KEY (Doc (stamped now S))"
  shows "saveProject Q now S (Browser st)
       = Browser (st(STORAGE_KEY \<mapsto> Doc (stamped now S), BACKUP_KEY \<mapsto> Doc (stamped now S)))"
  using assms by (simp add: JSON_stringify_def setItem_def)

lemma saveProject_primary_slot:
  assumes "Q st STORAGE_KEY (Doc (stamped now S))"
  shows "\<exists>st'. saveProject Q now S (Browser st) = Browser st'
           \<and> getItem st' STORAGE_KEY = Some (Doc (stamped now S))"
proof (cases "Q (st(STORAGE_KEY \<mapsto> Doc (stamped now S))) BACKUP_KEY (Doc (stamped now S))")
  case True
  from saveProject_both [of Q st now S] assms True keys_differ show ?thesis
    by (simp add: getItem_def)
next
  case False
  from saveProject_primary_only [of Q st now S] assms False show ?thesis
    by (simp add: getItem_def)
qed

lemma loadProject_after_save:
  assumes "Q st STORAGE_KEY (Doc (stamped now S))"
  shows "loadProject (saveProject Q now S (Browser st)) = stamped now S"
proof -
  from saveProject_primary_slot [of Q st now S] assms
  obtain st' where s: "saveProject Q now S (Browser st) = Browser st'"
    and p: "getItem st' STORAGE_KEY = Some (Doc (stamped now S))"
    by blast
  from loadProject_primary_doc [OF p] s show ?thesis by simp
qed

lemma get_prop_stamped:
  "get_prop (stamped now S) k = (if k = ''lastSaved'' then Some (JString now) else map_of S k)"
  by (simp add: stamped_def get_prop_def update_conv')

text \<open>
  C6. Round trip: when the browser accepts the write to the primary slot, \<^verbatim>\<open>loadProject\<close>
  right after \<^verbatim>\<open>saveProject\<close> of a state returns that state with \<open>lastSaved\<close> set to the time
  of the save: every other property (\<open>files\<close>, \<open>packages\<close>, \<open>projectName\<close>, \<open>sandboxId\<close>) reads
  as in the state saved.
\<close>

theorem save_load_round_trip:
  assumes "Q st STORAGE_KEY (Doc (stamped now S))"
  shows "loadProject (saveProject Q now S (Browser st))
           = JObject (AList.update ''lastSaved'' (JString now) S)
       \<and> get_prop (loadProject (saveProject Q now S (Browser st))) ''lastSaved''
           = Some (JString now)
       \<and> (\<forall>k. k \<noteq> ''lastSaved'' \<longrightarrow>
             get_prop (loadProject (saveProject Q now S (Browser st))) k = map_of S k)"
  unfolding loadProject_after_save [of Q st now S, OF assms]
  by (simp add: get_prop_stamped) (simp add: stamped_def)

theorem save_load_round_trip_witness:
  "accepts_all store0 STORAGE_KEY (Doc (stamped ''2025-02-02T00:00:00.000Z'' S0))
   \<and> loadProject (saveProject accepts_all ''2025-02-02T00:00:00.000Z'' S0 (Browser store0))
       = JObject [(''files'', JArray [mk_file ''a'' ''1'', mk_file ''b'' ''2'']),
                  (''packages'', JArray [JString ''p'']),
                  (''lastSaved'', JString ''2025-02-02T00:00:00.000Z''),
                  (''projectName'', JString ''PLC Karting''),
                  (''sandboxId'', JString ''sb1'')]"
  using save_load_round_trip [of accepts_all store0 "''2025-02-02T00:00:00.000Z''" S0]
  by (simp add: accepts_all_def S0_def)

text \<open>
  C7. Import validation: a document that has no array \<open>files\<close> (the empty object is one) is
  rejected and the environment, with what it stores, is left as it was; so is a text that
  does not parse and a file that cannot be read. A document whose \<open>files\<close> is an array is
  accepted.
\<close>

theorem import_validation:
  "(\<not> has_files_array d \<longrightarrow> importProject Q now (Inr (Doc d)) env = (False, env))
   \<and> (has_files_array d \<longrightarrow> fst (importProject Q now (Inr (Doc d)) env) = True)
   \<and> importProject Q now (Inr (Garbage s)) env = (False, env)
   \<and> importProject Q now (Inl e) env = (False, env)"
  by (cases d) (auto simp: has_files_array_def get_prop_def split: option.splits json.splits)

theorem import_validation_witness:
  "\<not> has_files_array (JObject [])
   \<and> importProject accepts_all ''2025-02-02T00:00:00.000Z'' (Inr (Doc (JObject []))) (Browser store0)
       = (False, Browser store0)
   \<and> has_files_array (JObject [(''files'', JArray [])])
   \<and> fst (importProject accepts_all ''2025-02-02T00:00:00.000Z''
            (Inr (Doc (JObject [(''files'', JArray [])]))) (Browser store0)) = True"
  using import_validation [of "JObject []" accepts_all "''2025-02-02T00:00:00.000Z''" "Browser store0"]
    import_validation [of "JObject [(''files'', JArray [])]" accepts_all
      "''2025-02-02T00:00:00.000Z''" "Browser store0"]
  by (simp add: has_files_array_def get_prop_def)

text \<open>
  C10. Import replaces: when a document with an array \<open>files\<close> is imported and the browser
  accepts the write to the primary slot, \<^verbatim>\<open>importProject\<close> answers \<^verbatim>\<open>true\<close> and \<^verbatim>\<open>loadProject\<close>
  then returns the imported document with \<open>lastSaved\<close> set: its files and its packages are
  exactly the document's, whatever was stored before, and a path the document has no file
  for has none in what is loaded.
\<close>

theorem import_replaces:
  assumes "map_of ps ''files'' = Some (JArray fs)"
    and "Q st STORAGE_KEY (Doc (stamped now ps))"
  shows "\<exists>env'. importProject Q now (Inr (Doc (JObject ps))) (Browser st) = (True, env')
       \<and> loadProject env' = JObject (AList.update ''lastSaved'' (JString now) ps)
       \<and> files_of (loadProject env') = fs
       \<and> get_prop (loadProject env') ''packages'' = map_of ps ''packages''
       \<and> (\<forall>p. file_at fs p = None \<longrightarrow> file_at (files_of (loadProject env')) p = None)"
proof -
  have i: "importProject Q now (Inr (Doc (JObject ps))) (Browser st)
         = (True, saveProject Q now ps (Browser st))"
    using assms(1) by (simp del: saveProject.simps)
  have l: "loadProject (saveProject Q now ps (Browser st)) = stamped now ps"
    using loadProject_after_save [of Q st now ps] assms(2) .
  have f: "files_of (stamped now ps) = fs"
    using assms(1) by (simp add: files_of_def get_prop_stamped)
  show ?thesis
    unfolding i
    apply (rule exI [of _ "saveProject Q now ps (Browser st)"])
    unfolding l f
    by (simp add: get_prop_stamped) (simp add: stamped_def)
qed

theorem import_replaces_witness:
  "file_at (files_of (loadProject (Browser store0))) ''a'' = Some (mk_file ''a'' ''1'')
   \<and> importProject accepts_all ''2025-02-02T00:00:00.000Z''
        (Inr (Doc (JObject [(''files'', JArray [mk_file ''c'' ''4''])]))) (Browser store0)
       = (True, Browser (store0
            (STORAGE_KEY \<mapsto> Doc (JObject [(''files'', JArray [mk_file ''c'' ''4'']),
                                             (''lastSaved'', JString ''2025-02-02T00:00:00.000Z'')]),
             BACKUP_KEY \<mapsto> Doc (JObject [(''files'', JArray [mk_file ''c'' ''4'']),
                                            (''lastSaved'', JString ''2025-02-02T00:00:00.000Z'')]))))
   \<and> loadProject (snd (importProject accepts_all ''2025-02-02T00:00:00.000Z''
        (Inr (Doc (JObject [(''files'', JArray [mk_file ''c'' ''4''])]))) (Browser store0)))
       = JObject [(''files'', JArray [mk_file ''c'' ''4'']),
                  (''lastSaved'', JString ''2025-02-02T00:00:00.000Z'')]
   \<and> file_at (files_of (loadProject (snd (importProject accepts_all ''2025-02-02T00:00:00.000Z''
        (Inr (Doc (JObject [(''files'', JArray [mk_file ''c'' ''4''])]))) (Browser store0))))) ''a''
       = None"
  using import_replaces [of "[(''files'', JArray [mk_file ''c'' ''4''])]" "[mk_file ''c'' ''4'']"
      accepts_all store0 "''2025-02-02T00:00:00.000Z''"] keys_differ
  by (simp add: accepts_all_def store0_def S0_def stamped_def JSON_stringify_def setItem_def
      getItem_def empty_text_def parse_or_null_def files_of_def get_prop_def path_of_def
      file_path_def mk_file_def)

text \<open>
  C2. Fallback of \<^verbatim>\<open>loadProject\<close>, as the code has it: a primary slot that parses is what is
  loaded; the backup is read when the primary slot is absent or holds the empty string,
  and when both are absent the result is \<^verbatim>\<open>null\<close>. A primary slot that holds text which does
  not parse gives \<^verbatim>\<open>null\<close>, whatever the backup holds. After a save that wrote both slots,
  removing the primary slot leaves the saved state loadable.
\<close>

theorem load_fallback:
  "(getItem st STORAGE_KEY = Some (Doc d) \<longrightarrow> loadProject (Browser st) = d)
   \<and> ((getItem st STORAGE_KEY = None \<or> getItem st STORAGE_KEY = Some (Garbage []))
        \<and> getItem st BACKUP_KEY = Some (Doc d) \<longrightarrow> loadProject (Browser st) = d)
   \<and> (getItem st STORAGE_KEY = None \<and> getItem st BACKUP_KEY = None \<longrightarrow>
        loadProject (Browser st) = JNull)
   \<and> (getItem st STORAGE_KEY = Some (Garbage (c # s)) \<longrightarrow> loadProject (Browser st) = JNull)
   \<and> (Q st STORAGE_KEY (Doc (stamped now S))
        \<and> Q (st(STORAGE_KEY \<mapsto> Doc (stamped now S))) BACKUP_KEY (Doc (stamped now S)) \<longrightarrow>
        (\<exists>st'. saveProject Q now S (Browser st) = Browser st'
           \<and> loadProject (Browser (removeItem st' STORAGE_KEY)) = stamped now S))"
proof -
  have a: "getItem st STORAGE_KEY = Some (Doc d) \<longrightarrow> loadProject (Browser st) = d"
    using loadProject_primary_doc [of st d] by blast
  have b: "(getItem st STORAGE_KEY = None \<or> getItem st STORAGE_KEY = Some (Garbage []))
        \<and> getItem st BACKUP_KEY = Some (Doc d) \<longrightarrow> loadProject (Browser st) = d"
    using loadProject_backup_doc [of st d] by blast
  have c: "getItem st STORAGE_KEY = None \<and> getItem st BACKUP_KEY = None \<longrightarrow>
        loadProject (Browser st) = JNull"
    by (simp add: load_backup_def)
  have d: "getItem st STORAGE_KEY = Some (Garbage (c # s)) \<longrightarrow> loadProject (Browser st) = JNull"
    by (simp add: empty_text_def parse_or_null_def)
  have e: "Q st STORAGE_KEY (Doc (stamped now S))
        \<and> Q (st(STORAGE_KEY \<mapsto> Doc (stamped now S))) BACKUP_KEY (Doc (stamped now S)) \<longrightarrow>
        (\<exists>st'. saveProject Q now S (Browser st) = Browser st'
           \<and> loadProject (Browser (removeItem st' STORAGE_KEY)) = stamped now S)"
  proof
    assume q: "Q st STORAGE_KEY (Doc (stamped now S))
        \<and> Q (st(STORAGE_KEY \<mapsto> Doc (stamped now S))) BACKUP_KEY (Doc (stamped now S))"
    let ?st = "st(STORAGE_KEY \<mapsto> Doc (stamped now S), BACKUP_KEY \<mapsto> Doc (stamped now S))"
    have s: "saveProject Q now S (Browser st) = Browser ?st"
      using saveProject_both [of Q st now S] q by blast
    have "loadProject (Browser (removeItem ?st STORAGE_KEY)) = stamped now S"
      using keys_differ
      by (intro loadProject_backup_doc) (simp_all add: removeItem_def getItem_def)
    with s show "\<exists>st'. saveProject Q now S (Browser st) = Browser st'
           \<and> loadProject (Browser (removeItem st' STORAGE_KEY)) = stamped now S"
      by blast
  qed
  from a b c d e show ?thesis by blast
qed

theorem load_fallback_witness:
  "loadProject (Browser (Map.empty(BACKUP_KEY \<mapsto> Doc (JObject S0)))) = JObject S0
   \<and> loadProject (Browser (Map.empty(STORAGE_KEY \<mapsto> Garbage ''{'', BACKUP_KEY \<mapsto> Doc (JObject S0))))
       = JNull
   \<and> loadProject (Browser Map.empty) = JNull"
  using load_fallback [of "Map.empty(BACKUP_KEY \<mapsto> Doc (JObject S0))" "JObject S0"]
    load_fallback [of "Map.empty(STORAGE_KEY \<mapsto> Garbage ''{'', BACKUP_KEY \<mapsto> Doc (JObject S0))"
      _ "CHR ''{''" "[]"]
    load_fallback [of Map.empty] keys_differ
  by (simp add: getItem_def)

theorem load_corrupt_primary_counterexample:
  "getItem (Map.empty(STORAGE_KEY \<mapsto> Garbage ''{'', BACKUP_KEY \<mapsto> Doc (JObject S0))) BACKUP_KEY
     = Some (Doc (JObject S0))
   \<and> JSON_parse (Garbage ''{'') = Inl SyntaxError
   \<and> loadProject (Browser (Map.empty(STORAGE_KEY \<mapsto> Garbage ''{'', BACKUP_KEY \<mapsto> Doc (JObject S0))))
       = JNull"
  using keys_differ by (simp add: getItem_def empty_text_def parse_or_null_def)

text \<open>
  C3. A save whose writes are refused, as the code has it: \<^verbatim>\<open>saveProject\<close> catches the error
  and returns nothing to its caller. When the write to the primary slot is refused, the
  storage is as before. When the primary write is accepted and the write to the backup slot
  is refused, the primary slot holds the new state, which \<^verbatim>\<open>loadProject\<close> then returns, and
  the backup slot holds what it held before.
\<close>

theorem save_failure:
  "(\<not> Q st STORAGE_KEY (Doc (stamped now S)) \<longrightarrow>
       saveProject Q now S (Browser st) = Browser st)
   \<and> (Q st STORAGE_KEY (Doc (stamped now S))
        \<and> \<not> Q (st(STORAGE_KEY \<mapsto> Doc (stamped now S))) BACKUP_KEY (Doc (stamped now S)) \<longrightarrow>
       (\<exists>st'. saveProject Q now S (Browser st) = Browser st'
          \<and> getItem st' STORAGE_KEY = Some (Doc (stamped now S))
          \<and> getItem st' BACKUP_KEY = getItem st BACKUP_KEY
          \<and> loadProject (Browser st') = stamped now S))"
proof -
  have a: "\<not> Q st STORAGE_KEY (Doc (stamped now S)) \<longrightarrow>
       saveProject Q now S (Browser st) = Browser st"
    using saveProject_refused [of Q st now S] by blast
  have b: "Q st STORAGE_KEY (Doc (stamped now S))
        \<and> \<not> Q (st(STORAGE_KEY \<mapsto> Doc (stamped now S))) BACKUP_KEY (Doc (stamped now S)) \<longrightarrow>
       (\<exists>st'. saveProject Q now S (Browser st) = Browser st'
          \<and> getItem st' STORAGE_KEY = Some (Doc (stamped now S))
          \<and> getItem st' BACKUP_KEY = getItem st BACKUP_KEY
          \<and> loadProject (Browser st') = stamped now S)"
  proof
    assume q: "Q st STORAGE_KEY (Doc (stamped now S))
        \<and> \<not> Q (st(STORAGE_KEY \<mapsto> Doc (stamped now S))) BACKUP_KEY (Doc (stamped now S))"
    let ?st = "st(STORAGE_KEY \<mapsto> Doc (stamped now S))"
    have s: "saveProject Q now S (Browser st) = Browser ?st"
      using saveProject_primary_only [of Q st now S] q by blast
    have p: "getItem ?st STORAGE_KEY = Some (Doc (stamped now S))"
      by (simp add: getItem_def)
    have k: "getItem ?st BACKUP_KEY = getItem st BACKUP_KEY"
      using keys_differ by (simp add: getItem_def)
    from s p k loadProject_primary_doc [OF p]
    show "\<exists>st'. saveProject Q now S (Browser st) = Browser st'
          \<and> getItem st' STORAGE_KEY = Some (Doc (stamped now S))
          \<and> getItem st' BACKUP_KEY = getItem st BACKUP_KEY
          \<and> loadProject (Browser st') = stamped now S"
      by blast
  qed
  from a b show ?thesis by blast
qed

theorem save_failure_witness:
  "saveProject refuses_all ''2025-02-02T00:00:00.000Z'' S1 (Browser store0) = Browser store0
   \<and> loadProject (saveProject refuses_backup ''2025-02-02T00:00:00.000Z'' S1 (Browser store0))
       = JObject (S1 @ [(''lastSaved'', JString ''2025-02-02T00:00:00.000Z'')])"
  using save_failure [of refuses_all store0 "''2025-02-02T00:00:00.000Z''" S1]
    save_failure [of refuses_backup store0 "''2025-02-02T00:00:00.000Z''" S1] keys_differ
  by (auto simp: refuses_all_def refuses_backup_def stamped_def S1_def)

theorem save_partial_commit_counterexample:
  "setItem refuses_backup
       (store0(STORAGE_KEY \<mapsto> Doc (stamped ''2025-02-02T00:00:00.000Z'' S1)))
       BACKUP_KEY (Doc (stamped ''2025-02-02T00:00:00.000Z'' S1)) = Inl QuotaExceededError
   \<and> loadProject (Browser store0) = JObject S0
   \<and> loadProject (saveProject refuses_backup ''2025-02-02T00:00:00.000Z'' S1 (Browser store0))
       = JObject (S1 @ [(''lastSaved'', JString ''2025-02-02T00:00:00.000Z'')])
   \<and> JObject (S1 @ [(''lastSaved'', JString ''2025-02-02T00:00:00.000Z'')]) \<noteq> JObject S0"
  using keys_differ
  by (simp add: getItem_def setItem_def empty_text_def parse_or_null_def refuses_backup_def
      JSON_stringify_def stamped_def store0_def S1_def S0_def)

subsection \<open>The merge of saveFiles\<close>



















section \<open>Properties of ErrorMonitor\<close>

lemma first_match_None:
  "first_match ps msg = None \<longleftrightarrow> (\<forall>p \<in> set ps. \<not> test (pattern p) msg)"
  by (induction ps) auto

lemma first_match_Some:
  "first_match ps msg = Some p \<longleftrightarrow>
     (\<exists>i < length ps. ps ! i = p \<and> test (pattern p) msg
        \<and> (\<forall>j < i. \<not> test (pattern (ps ! j)) msg))"
proof (induction ps)
  case Nil
  then show ?case by simp
next
  case (Cons q ps)
  show ?case
  proof (cases "test (pattern q) msg")
    case True
    have "(\<exists>i < length (q # ps). (q # ps) ! i = p \<and> test (pattern p) msg \<and>
            (\<forall>j < i. \<not> test (pattern ((q # ps) ! j)) msg)) \<longleftrightarrow> q = p"
    proof
      assume "\<exists>i < length (q # ps). (q # ps) ! i = p \<and> test (pattern p) msg \<and>
            (\<forall>j < i. \<not> test (pattern ((q # ps) ! j)) msg)"
      then obtain i where i: "(q # ps) ! i = p" "\<forall>j < i. \<not> test (pattern ((q # ps) ! j)) msg"
        by blast
      have "i = 0"
      proof (rule ccontr)
        assume "i \<noteq> 0"
        then have "0 < i" by simp
        with i(2) have "\<not> test (pattern ((q # ps) ! 0)) msg" by blast
        with True show False by simp
      qed
      with i(1) show "q = p" by simp
    next
      assume "q = p"
      with True show "\<exists>i < length (q # ps). (q # ps) ! i = p \<and> test (pattern p) msg \<and>
            (\<forall>j < i. \<not> test (pattern ((q # ps) ! j)) msg)"
        by (intro exI [of _ 0]) simp
    qed
    with True show ?thesis by simp
  next
    case False
    have "(\<exists>i < length (q # ps). (q # ps) ! i = p \<and> test (pattern p) msg \<and>
            (\<forall>j < i. \<not> test (pattern ((q # ps) ! j)) msg)) \<longleftrightarrow>
          (\<exists>i < length ps. ps ! i = p \<and> test (pattern p) msg \<and>
            (\<forall>j < i. \<not> test (pattern (ps ! j)) msg))" (is "?L \<longleftrightarrow> ?R")
    proof
      assume ?L
      then obtain i where i: "i < length (q # ps)" "(q # ps) ! i = p" "test (pattern p) msg"
        "\<forall>j < i. \<not> test (pattern ((q # ps) ! j)) msg" by blast
      with False obtain k where k: "i = Suc k" by (cases i) auto
      have "\<forall>j < k. \<not> test (pattern (ps ! j)) msg"
      proof (intro allI impI)
        fix j assume "j < k"
        then have "Suc j < i" using k by simp
        with i(4) have "\<not> test (pattern ((q # ps) ! Suc j)) msg" by blast
        then show "\<not> test (pattern (ps ! j)) msg" by simp
      qed
      with i k show ?R by (intro exI [of _ k]) simp
    next
      assume ?R
      then obtain k where k: "k < length ps" "ps ! k = p" "test (pattern p) msg"
        "\<forall>j < k. \<not> test (pattern (ps ! j)) msg" by blast
      have "\<forall>j < Suc k. \<not> test (pattern ((q # ps) ! j)) msg"
      proof (intro allI impI)
        fix j assume "j < Suc k"
        then show "\<not> test (pattern ((q # ps) ! j)) msg"
          using False k(4) by (cases j) auto
      qed
      with k show ?L by (intro exI [of _ "Suc k"]) simp
    qed
    with False Cons.IH show ?thesis by simp
  qed
qed

text \<open>
  C4. Classification: \<^verbatim>\<open>detectError\<close> returns a pattern exactly when that pattern stands at
  some place of \<^verbatim>\<open>errorPatterns\<close>, matches the message, and no pattern at an earlier place
  matches it: of several matching patterns the first declared is returned. It returns
  none exactly when no pattern matches, and \<^verbatim>\<open>getErrorType\<close> is then \<open>unknown\<close>, and
  otherwise the type of the pattern returned. Both are functions of the message alone.
\<close>

theorem detectError_first_match:
  "(detectError msg = Some p \<longleftrightarrow>
      (\<exists>i < length errorPatterns. errorPatterns ! i = p \<and> test (pattern p) msg
         \<and> (\<forall>j < i. \<not> test (pattern (errorPatterns ! j)) msg)))
   \<and> (detectError msg = None \<longleftrightarrow> (\<forall>q \<in> set errorPatterns. \<not> test (pattern q) msg))
   \<and> (detectError msg = None \<longrightarrow> getErrorType msg = ''unknown'')
   \<and> (detectError msg = Some p \<longrightarrow> getErrorType msg = type p)"
proof -
  have a: "detectError msg = Some p \<longleftrightarrow>
      (\<exists>i < length errorPatterns. errorPatterns ! i = p \<and> test (pattern p) msg
         \<and> (\<forall>j < i. \<not> test (pattern (errorPatterns ! j)) msg))"
    unfolding detectError_def by (rule first_match_Some)
  have b: "detectError msg = None \<longleftrightarrow> (\<forall>q \<in> set errorPatterns. \<not> test (pattern q) msg)"
    unfolding detectError_def by (rule first_match_None)
  have c: "detectError msg = None \<longrightarrow> getErrorType msg = ''unknown''"
    by (simp add: getErrorType_def)
  have d: "detectError msg = Some p \<longrightarrow> getErrorType msg = type p"
    by (simp add: getErrorType_def)
  from a b c d show ?thesis by blast
qed

theorem detectError_first_match_witness:
  "test (pattern (errorPatterns ! 4)) ''SyntaxError: Cannot find module 'x' in app''
   \<and> test (pattern (errorPatterns ! 5)) ''SyntaxError: Cannot find module 'x' in app''
   \<and> detectError ''SyntaxError: Cannot find module 'x' in app'' = Some (errorPatterns ! 4)
   \<and> getErrorType ''SyntaxError: Cannot find module 'x' in app'' = ''build''
   \<and> detectError ''all is well'' = None
   \<and> getErrorType ''all is well'' = ''unknown''"
proof -
  have t4: "test (pattern (errorPatterns ! 4)) ''SyntaxError: Cannot find module 'x' in app''"
    by code_simp
  have t5: "test (pattern (errorPatterns ! 5)) ''SyntaxError: Cannot find module 'x' in app''"
    by code_simp
  have d: "detectError ''SyntaxError: Cannot find module 'x' in app'' = Some (errorPatterns ! 4)"
    by code_simp
  have ty: "type (errorPatterns ! 4) = ''build''"
    by code_simp
  have "detectError ''SyntaxError: Cannot find module 'x' in app'' = Some (errorPatterns ! 4)
      \<longrightarrow> getErrorType ''SyntaxError: Cannot find module 'x' in app'' = type (errorPatterns ! 4)"
    by (rule detectError_first_match
      [of "''SyntaxError: Cannot find module 'x' in app''" "errorPatterns ! 4",
        THEN conjunct2, THEN conjunct2, THEN conjunct2])
  with d have g: "getErrorType ''SyntaxError: Cannot find module 'x' in app'' = ''build''"
    unfolding ty by (rule mp [rotated])
  have n: "detectError ''all is well'' = None"
    by code_simp
  have "detectError ''all is well'' = None \<longrightarrow> getErrorType ''all is well'' = ''unknown''"
    by (rule detectError_first_match
      [of "''all is well''" undefined, THEN conjunct2, THEN conjunct2, THEN conjunct1])
  with n have u: "getErrorType ''all is well'' = ''unknown''"
    by (rule mp [rotated])
  from t4 t5 d g n u show ?thesis by blast
qed

section \<open>Properties of SandboxWarning\<close>

text \<open>
  C8. Lifecycle: for one start time and two ticks, the later at or after the earlier, the
  state shown by the later tick is not before the state shown by the earlier one in the order
  Active, Warning, Expired; the remaining time never grows and is never negative; while it
  is positive it is strictly smaller at a strictly later tick; and it is zero exactly when
  the state is Expired. The state is Expired from the lifetime on, Warning in the two
  minutes before, and Active earlier.
\<close>

theorem lifecycle_monotone:
  assumes "t1 \<le> t2"
  shows "\<exists>r1 r2. timeRemaining (tick s t1) = Some r1 \<and> timeRemaining (tick s t2) = Some r2
     \<and> rank (lifecycle_of (tick s t1)) \<le> rank (lifecycle_of (tick s t2))
     \<and> r2 \<le> r1 \<and> 0 \<le> r2
     \<and> (t1 < t2 \<and> 0 < r1 \<longrightarrow> r2 < r1)
     \<and> (r2 = 0 \<longleftrightarrow> lifecycle_of (tick s t2) = Expired)
     \<and> lifecycle_of (tick s t2) =
         (if SANDBOX_LIFETIME \<le> t2 - s then Expired
          else if SANDBOX_LIFETIME - WARNING_THRESHOLD \<le> t2 - s then Warning
          else Active)"
  using assms
  by (auto simp: tick_def Let_def lifecycle_of_def SANDBOX_LIFETIME_def WARNING_THRESHOLD_def)

theorem lifecycle_monotone_witness:
  "(1000 :: int) \<le> 781000
   \<and> lifecycle_of (tick 0 1000) = Active \<and> timeRemaining (tick 0 1000) = Some 899000
   \<and> lifecycle_of (tick 0 781000) = Warning \<and> timeRemaining (tick 0 781000) = Some 119000
   \<and> lifecycle_of (tick 0 900000) = Expired \<and> timeRemaining (tick 0 900000) = Some 0
   \<and> lifecycle_of (tick 0 901000) = Expired \<and> timeRemaining (tick 0 901000) = Some 0"
  using lifecycle_monotone [of 1000 781000 0] lifecycle_monotone [of 781000 900000 0]
    lifecycle_monotone [of 900000 901000 0]
  by (simp add: tick_def Let_def lifecycle_of_def SANDBOX_LIFETIME_def WARNING_THRESHOLD_def)

section \<open>Properties of the restore-project route\<close>

text \<open>
  A restart call that answers, whatever its status, does not change the reply: for a
  request with an array of files that all have a text and a sandbox id, once the apply call
  has answered \<^verbatim>\<open>ok\<close> and its body has been read to the end, the route answers with success
  and the numbers of files and packages restored.
\<close>

lemma restart_status_not_fatal:
  assumes "get_prop requestData ''files'' = Some (JArray fs)"
    and "\<not> list_ex file_text_throws fs"
    and "truthy_opt (get_prop requestData ''sandboxId'')"
    and "\<not> template_throws (get_prop requestData ''sandboxId'')"
    and "ok applyResponse"
    and "apply_body applyResponse = Inr ()"
  shows "restore_project_POST (Inr requestData) (Inr applyResponse) (Inr restartResponse)
       = Restored (length fs) (length_or_0 (get_prop requestData ''packages''))"
proof -
  have "requestData \<noteq> JNull" using assms(1) by (auto simp: get_prop_def)
  with assms show ?thesis by (simp add: restore_project_POST_def)
qed

text \<open>A restart call that is rejected, after the same apply, is answered by the outer catch.\<close>

lemma restart_rejected_crashes:
  assumes "get_prop requestData ''files'' = Some (JArray fs)"
    and "\<not> list_ex file_text_throws fs"
    and "truthy_opt (get_prop requestData ''sandboxId'')"
    and "\<not> template_throws (get_prop requestData ''sandboxId'')"
    and "ok applyResponse"
    and "apply_body applyResponse = Inr ()"
  shows "restore_project_POST (Inr requestData) (Inr applyResponse) (Inl e) = Crashed e"
proof -
  have "requestData \<noteq> JNull" using assms(1) by (auto simp: get_prop_def)
  with assms show ?thesis by (simp add: restore_project_POST_def)
qed

lemma restore_request_applied:
  "get_prop restore_request ''files'' = Some (JArray [mk_file ''a'' ''1'', mk_file ''b'' ''2''])
   \<and> \<not> list_ex file_text_throws [mk_file ''a'' ''1'', mk_file ''b'' ''2'']
   \<and> truthy_opt (get_prop restore_request ''sandboxId'')
   \<and> \<not> template_throws (get_prop restore_request ''sandboxId'')
   \<and> get_prop restore_request ''packages'' = Some (JArray [JString ''p''])
   \<and> ok applied \<and> apply_body applied = Inr ()"
  by (simp add: restore_request_def applied_def get_prop_def truthy_opt_def template_throws_def
      file_text_throws_def apply_body_def mk_file_def)

text \<open>
  C9. A failed restart, on the code: the files and the package of the example request are
  applied (the apply call answers \<^verbatim>\<open>ok\<close> and its stream ends with the complete event). When
  the restart call answers with an error status, the route answers with success, two files
  and one package restored. When the restart call is rejected, the route answers with
  status 500 and the error, although the same files were restored.
\<close>

theorem restart_rejected_is_fatal:
  "\<not> ok restart_refused
   \<and> restore_project_POST (Inr restore_request) (Inr applied) (Inr restart_refused)
       = Restored 2 (JNumber 1)
   \<and> restore_project_POST (Inr restore_request) (Inr applied) (Inl FetchFailed)
       = Crashed FetchFailed"
proof -
  note r = restore_request_applied
  have a: "\<not> ok restart_refused" by (simp add: restart_refused_def)
  have b: "restore_project_POST (Inr restore_request) (Inr applied) (Inr restart_refused)
       = Restored 2 (JNumber 1)"
    using restart_status_not_fatal [of restore_request "[mk_file ''a'' ''1'', mk_file ''b'' ''2'']"
        applied restart_refused] r
    by simp
  have c: "restore_project_POST (Inr restore_request) (Inr applied) (Inl FetchFailed)
       = Crashed FetchFailed"
    using restart_rejected_crashes [of restore_request "[mk_file ''a'' ''1'', mk_file ''b'' ''2'']"
        applied FetchFailed] r
    by simp
  from a b c show ?thesis by blast
qed

section \<open>Properties of the auto-fix route\<close>

lemma sublist_app: "sublist mk rep \<Longrightarrow> sublist mk (rep @ t)"
  by (auto simp: sublist_def) (metis append.assoc)

lemma replace_first_unchanged:
  "sublist mk rep \<Longrightarrow> \<not> sublist mk (replace_first r rep s) \<Longrightarrow> replace_first r rep s = s"
  by (induction s) (auto simp: sublist_app sublist_Cons_right split: list.splits)

lemma replaceAll_unchanged:
  "sublist mk rep \<Longrightarrow> \<not> sublist mk (replaceAll (p # ps) rep s) \<Longrightarrow>
   replaceAll (p # ps) rep s = s"
  by (induction "p # ps" rep s rule: replaceAll.induct)
     (auto simp: sublist_app sublist_Cons_right split: if_splits)

lemma patch_file_twice:
  assumes "\<And>c. \<not> sublist marker (patch c) \<Longrightarrow> patch c = c"
  shows "patch_file (snd (patch_file fs file marker msg patch)) file marker msg patch
       = patch_file fs file marker msg patch"
proof (cases "fs file")
  case None
  then show ?thesis by (simp add: patch_file_def)
next
  case (Some c)
  show ?thesis
  proof (cases "sublist marker c")
    case True
    with Some show ?thesis by (simp add: patch_file_def)
  next
    case False
    show ?thesis
    proof (cases "sublist marker (patch c)")
      case True
      with Some False show ?thesis by (simp add: patch_file_def)
    next
      case no: False
      from assms [OF no] have "patch c = c" .
      with Some False show ?thesis by (simp add: patch_file_def)
    qed
  qed
qed

lemma hydration_marker:
  "sublist ''suppressHydrationWarning'' ''<body className={inter.className} suppressHydrationWarning>''"
  by code_simp

lemma stream_marker: "sublist ''!stream.locked'' guarded_close"
  by code_simp

lemma replaceAll_past_header:
  "replaceAll ''const targetUrl = url;'' rep (''\<newline>function validateUrl'' @ t)
     = ''\<newline>function validateUrl'' @ replaceAll ''const targetUrl = url;'' rep t"
  by simp

lemma urlValidation_header:
  "urlValidation = ''\<newline>function validateUrl'' @ drop 21 urlValidation"
  by (simp add: urlValidation_def)

lemma has_validateUrl:
  "sublist ''validateUrl''
     (replaceAll ''const targetUrl = url;'' rep (urlValidation @ ''\<newline>'' @ content))"
proof -
  have "urlValidation @ ''\<newline>'' @ content
      = ''\<newline>function validateUrl'' @ (drop 21 urlValidation @ ''\<newline>'' @ content)"
    using urlValidation_header by (metis append.assoc)
  then have "replaceAll ''const targetUrl = url;'' rep (urlValidation @ ''\<newline>'' @ content)
      = ''\<newline>function '' @ ''validateUrl'' @
        replaceAll ''const targetUrl = url;'' rep (drop 21 urlValidation @ ''\<newline>'' @ content)"
    by (simp only: replaceAll_past_header) simp
  then show ?thesis
    by (simp only: sublist_appendI)
qed

text \<open>
  C5. Applying a fix twice, as the code has it: for every plan the route does not take for
  the CSS fix, the second application changes no file and gives the reply of the first; the
  hydration, stream and URL patches are each behind a check for the marker they insert. The
  CSS fix has no such check: every application removes one leading \<^verbatim>\<open>```css\<close> line and one
  trailing \<^verbatim>\<open>```\<close> line, so the file after the second application is the file after the first
  one with one more layer of fences removed.
\<close>

theorem auto_fix_twice:
  "(\<not> css_plan file fix \<longrightarrow>
      auto_fix_POST (snd (auto_fix_POST fs file fix)) file fix = auto_fix_POST fs file fix)
   \<and> (css_plan file fix \<and> fs file = Some content \<longrightarrow>
        auto_fix_POST fs file fix
          = (Success ''CSS markdown syntax removed'', fs(file \<mapsto> unfence_css content))
        \<and> auto_fix_POST (snd (auto_fix_POST fs file fix)) file fix
          = (Success ''CSS markdown syntax removed'',
             fs(file \<mapsto> unfence_css (unfence_css content))))"
proof -
  have a: "auto_fix_POST (snd (auto_fix_POST fs file fix)) file fix = auto_fix_POST fs file fix"
    if n: "\<not> css_plan file fix"
  proof -
    consider
      (hydration) "file = ''app/layout.tsx'' \<and> sublist ''suppressHydrationWarning'' fix"
    | (stream) "\<not> (file = ''app/layout.tsx'' \<and> sublist ''suppressHydrationWarning'' fix)"
        "sublist ''generate-ai-code-stream'' file \<and> sublist ''stream state checks'' fix"
    | (url) "\<not> (file = ''app/layout.tsx'' \<and> sublist ''suppressHydrationWarning'' fix)"
        "\<not> (sublist ''generate-ai-code-stream'' file \<and> sublist ''stream state checks'' fix)"
        "sublist ''scrape-url-enhanced'' file \<and> sublist ''Validate and format URL'' fix"
    | (none) "\<not> (file = ''app/layout.tsx'' \<and> sublist ''suppressHydrationWarning'' fix)"
        "\<not> (sublist ''generate-ai-code-stream'' file \<and> sublist ''stream state checks'' fix)"
        "\<not> (sublist ''scrape-url-enhanced'' file \<and> sublist ''Validate and format URL'' fix)"
      by blast
    then show ?thesis
    proof cases
      case hydration
      have "auto_fix_POST g file fix =
          patch_file g file ''suppressHydrationWarning'' ''Hydration warning suppressed''
            (replace_first body_tag ''<body className={inter.className} suppressHydrationWarning>'')"
        for g
        unfolding auto_fix_POST_def using hydration by (simp only: simp_thms if_True)
      then show ?thesis
        using patch_file_twice [of "''suppressHydrationWarning''"
            "replace_first body_tag ''<body className={inter.className} suppressHydrationWarning>''"
            fs "file" "''Hydration warning suppressed''"]
          replace_first_unchanged [OF hydration_marker]
        by simp
    next
      case stream
      have "auto_fix_POST g file fix =
          patch_file g file ''!stream.locked'' ''Stream error handling added''
            (replaceAll ''await writer.close();'' guarded_close)"
        for g
        unfolding auto_fix_POST_def using stream n [unfolded css_plan_def]
        by (simp only: simp_thms if_True if_False)
      then show ?thesis
        using patch_file_twice [of "''!stream.locked''"
            "replaceAll ''await writer.close();'' guarded_close"
            fs "file" "''Stream error handling added''"]
          replaceAll_unchanged [OF stream_marker]
        by simp
    next
      case url
      have "auto_fix_POST g file fix =
          patch_file g file ''validateUrl'' ''URL validation added''
            (\<lambda>content. replaceAll ''const targetUrl = url;'' ''const targetUrl = validateUrl(url);''
                         (urlValidation @ ''\<newline>'' @ content))"
        for g
        unfolding auto_fix_POST_def using url n [unfolded css_plan_def]
        by (simp only: simp_thms if_True if_False)
      then show ?thesis
        using patch_file_twice [of "''validateUrl''"
            "\<lambda>content. replaceAll ''const targetUrl = url;'' ''const targetUrl = validateUrl(url);''
                         (urlValidation @ ''\<newline>'' @ content)"
            fs "file" "''URL validation added''"]
          has_validateUrl
        by simp
    next
      case none
      have "auto_fix_POST g file fix = (NoAutoFix, g)" for g
        unfolding auto_fix_POST_def using none n [unfolded css_plan_def]
        by (simp only: simp_thms if_True if_False)
      then show ?thesis by simp
    qed
  qed
  have b: "auto_fix_POST fs file fix
          = (Success ''CSS markdown syntax removed'', fs(file \<mapsto> unfence_css content))
        \<and> auto_fix_POST (snd (auto_fix_POST fs file fix)) file fix
          = (Success ''CSS markdown syntax removed'',
             fs(file \<mapsto> unfence_css (unfence_css content)))"
    if c: "css_plan file fix" and f: "fs file = Some content"
  proof -
    have s: "suffix ''.css'' file" using c by (simp add: css_plan_def)
    have "\<not> suffix ''.css'' ''app/layout.tsx''" by code_simp
    with s have l: "file \<noteq> ''app/layout.tsx''" by auto
    have "auto_fix_POST g file fix =
        (case g file of None \<Rightarrow> (Failure ENOENT, g)
         | Some content \<Rightarrow>
             (Success ''CSS markdown syntax removed'', g(file \<mapsto> unfence_css content)))"
      for g
      unfolding auto_fix_POST_def using l c [unfolded css_plan_def]
      by (simp only: simp_thms if_True if_False)
    then show ?thesis using f by simp
  qed
  from a b show ?thesis by blast
qed

theorem auto_fix_twice_witness:
  "\<not> css_plan ''app/layout.tsx'' ''Add suppressHydrationWarning to affected elements''
   \<and> snd (auto_fix_POST layout0 ''app/layout.tsx''
            ''Add suppressHydrationWarning to affected elements'') ''app/layout.tsx''
       = Some ''<html><body className={inter.className} suppressHydrationWarning>x</body></html>''
   \<and> auto_fix_POST
         (snd (auto_fix_POST layout0 ''app/layout.tsx''
                 ''Add suppressHydrationWarning to affected elements''))
         ''app/layout.tsx'' ''Add suppressHydrationWarning to affected elements''
       = auto_fix_POST layout0 ''app/layout.tsx''
           ''Add suppressHydrationWarning to affected elements''
   \<and> css_plan ''app/globals.css'' ''Remove markdown code blocks from CSS file''
   \<and> fenced_twice ''app/globals.css''
       = Some ''```css\<newline>```css\<newline>body{}\<newline>```\<newline>```''
   \<and> snd (auto_fix_POST
         (snd (auto_fix_POST fenced_twice ''app/globals.css''
                 ''Remove markdown code blocks from CSS file''))
         ''app/globals.css'' ''Remove markdown code blocks from CSS file'') ''app/globals.css''
       = Some ''body{}''"
proof -
  have n: "\<not> css_plan ''app/layout.tsx'' ''Add suppressHydrationWarning to affected elements''"
    by code_simp
  have h: "snd (auto_fix_POST layout0 ''app/layout.tsx''
            ''Add suppressHydrationWarning to affected elements'') ''app/layout.tsx''
       = Some ''<html><body className={inter.className} suppressHydrationWarning>x</body></html>''"
    by code_simp
  have t: "auto_fix_POST
         (snd (auto_fix_POST layout0 ''app/layout.tsx''
                 ''Add suppressHydrationWarning to affected elements''))
         ''app/layout.tsx'' ''Add suppressHydrationWarning to affected elements''
       = auto_fix_POST layout0 ''app/layout.tsx''
           ''Add suppressHydrationWarning to affected elements''"
    using auto_fix_twice [of "''app/layout.tsx''"
        "''Add suppressHydrationWarning to affected elements''" layout0] n
    by blast
  have c: "css_plan ''app/globals.css'' ''Remove markdown code blocks from CSS file''"
    by code_simp
  have f: "fenced_twice ''app/globals.css''
       = Some ''```css\<newline>```css\<newline>body{}\<newline>```\<newline>```''"
    by (simp add: fenced_twice_def)
  have u: "unfence_css (unfence_css ''```css\<newline>```css\<newline>body{}\<newline>```\<newline>```'') = ''body{}''"
    by code_simp
  have "auto_fix_POST
         (snd (auto_fix_POST fenced_twice ''app/globals.css''
                 ''Remove markdown code blocks from CSS file''))
         ''app/globals.css'' ''Remove markdown code blocks from CSS file''
       = (Success ''CSS markdown syntax removed'',
          fenced_twice(''app/globals.css'' \<mapsto>
            unfence_css (unfence_css ''```css\<newline>```css\<newline>body{}\<newline>```\<newline>```'')))"
    using auto_fix_twice [of "''app/globals.css''" "''Remove markdown code blocks from CSS file''"
        fenced_twice "''```css\<newline>```css\<newline>body{}\<newline>```\<newline>```''"] c f
    by blast
  then have s: "snd (auto_fix_POST
         (snd (auto_fix_POST fenced_twice ''app/globals.css''
                 ''Remove markdown code blocks from CSS file''))
         ''app/globals.css'' ''Remove markdown code blocks from CSS file'') ''app/globals.css''
       = Some ''body{}''"
    unfolding u by simp
  from n h t c f s show ?thesis by blast
qed

theorem auto_fix_css_counterexample:
  "snd (auto_fix_POST fenced_twice ''app/globals.css''
          ''Remove markdown code blocks from CSS file'') ''app/globals.css''
     = Some ''```css\<newline>body{}\<newline>```''
   \<and> snd (auto_fix_POST
            (snd (auto_fix_POST fenced_twice ''app/globals.css''
                    ''Remove markdown code blocks from CSS file''))
            ''app/globals.css'' ''Remove markdown code blocks from CSS file'') ''app/globals.css''
     = Some ''body{}''
   \<and> ''```css\<newline>body{}\<newline>```'' \<noteq> ''body{}''"
  by code_simp

end
